theory Spec2Isabelle
  imports Complex_Main "HOL-Library.Word" "HOL-Library.Sublist"
begin

section \<open>Python strings and bytes\<close>

text \<open>
  A Python \<open>str\<close> is a sequence of Unicode code points and \<open>len\<close> counts code points,
  so a string is a list of code points here. \<open>py\<close> turns an ASCII literal into such a
  list; characters outside ASCII are written as their code point (the cross mark of the
  failure strings is U+274C, the line feed is 10, the space is 32). A \<open>bytes\<close> value is
  a list of 8-bit words.
\<close>

type_synonym pystr = "nat list"

type_synonym bytes = "8 word list"

definition py :: "string \<Rightarrow> pystr" where
  "py s = map of_char s"

text \<open>
  \<open>str.isspace\<close> for one character: the code points CPython classifies as whitespace.
  \<open>str.strip()\<close> and \<open>str.split()\<close> without argument use this class.
\<close>

definition isspace :: "nat \<Rightarrow> bool" where
  "isspace c \<longleftrightarrow>
     (9 \<le> c \<and> c \<le> 13) \<or> (28 \<le> c \<and> c \<le> 32) \<or> c = 133 \<or> c = 160 \<or> c = 5760 \<or>
     (8192 \<le> c \<and> c \<le> 8202) \<or> c = 8232 \<or> c = 8233 \<or> c = 8239 \<or> c = 8287 \<or>
     c = 12288"

text \<open>\<open>s.strip()\<close>: leading and trailing whitespace removed.\<close>

definition strip :: "pystr \<Rightarrow> pystr" where
  "strip s = rev (dropWhile isspace (rev (dropWhile isspace s)))"

text \<open>
  \<open>s.split(sep)\<close> for a non-empty separator: the segments between the non-overlapping
  occurrences of \<open>sep\<close>, scanned from the left; the result is never empty. The source
  only calls it with the constant separators \<open>'.'\<close>, \<open>'\n'\<close> and \<open>'\n\n'\<close>.
  \<open>split_from sep cur rest\<close> carries the segment read so far.
\<close>

fun split_from :: "pystr \<Rightarrow> pystr \<Rightarrow> pystr \<Rightarrow> pystr list" where
  "split_from sep cur [] = [cur]"
| "split_from sep cur (c # cs) =
     (if prefix sep (c # cs) then cur # split_from sep [] (drop (length sep - 1) cs)
      else split_from sep (cur @ [c]) cs)"

definition split :: "pystr \<Rightarrow> pystr \<Rightarrow> pystr list" where
  "split s sep = split_from sep [] s"

text \<open>\<open>s.split()\<close>: the maximal runs of non-whitespace characters.\<close>

fun split_ws_from :: "pystr \<Rightarrow> pystr \<Rightarrow> pystr list" where
  "split_ws_from cur [] = (if cur = [] then [] else [cur])"
| "split_ws_from cur (c # cs) =
     (if isspace c then (if cur = [] then split_ws_from [] cs else cur # split_ws_from [] cs)
      else split_ws_from (cur @ [c]) cs)"

definition split_ws :: "pystr \<Rightarrow> pystr list" where
  "split_ws s = split_ws_from [] s"

text \<open>\<open>sep.join(xs)\<close>.\<close>

fun join :: "pystr \<Rightarrow> pystr list \<Rightarrow> pystr" where
  "join sep [] = []"
| "join sep [x] = x"
| "join sep (x # y # ys) = x @ sep @ join sep (y # ys)"

text \<open>\<open>re.sub(r' +', ' ', s)\<close>: every maximal run of spaces becomes one space.\<close>

function sub_spaces :: "pystr \<Rightarrow> pystr" where
  "sub_spaces [] = []"
| "sub_spaces (c # cs) =
     (if c = 32 then 32 # sub_spaces (dropWhile (\<lambda>x. x = 32) cs)
      else c # sub_spaces cs)"
  by pat_completeness auto
termination
  by (relation "measure length") (auto simp: less_Suc_eq_le length_dropWhile_le)

text \<open>\<open>str(n)\<close> for an integer, in decimal.\<close>

function str_nat :: "nat \<Rightarrow> pystr" where
  "str_nat n = (if n < 10 then [48 + n] else str_nat (n div 10) @ [48 + n mod 10])"
  by pat_completeness auto
termination
  by (relation "measure id") auto

definition str_int :: "int \<Rightarrow> pystr" where
  "str_int i = (if i < 0 then 45 # str_nat (nat (- i)) else str_nat (nat i))"

text \<open>Truthiness of an optional string or bytes argument: \<open>None\<close> and the empty value are false.\<close>

fun truthy :: "'a list option \<Rightarrow> bool" where
  "truthy None = False"
| "truthy (Some xs) = (xs \<noteq> [])"

section \<open>utils/pdf\_extractor.py: normalisation and statistics\<close>

text \<open>
  \<open>DocumentExtractor._clean_text\<close>: split into lines, strip each line, drop the lines
  that are empty after stripping, join with single newlines, collapse runs of spaces.
\<close>

definition clean_text :: "pystr \<Rightarrow> pystr" where
  "clean_text text =
     (if text = [] then []
      else let lines = split text [10];
               cleaned_lines = filter (\<lambda>cleaned_line. cleaned_line \<noteq> []) (map strip lines);
               cleaned_text = join [10] cleaned_lines
           in sub_spaces cleaned_text)"

record text_stats =
  character_count :: nat
  word_count :: nat
  line_count :: nat
  paragraph_count :: nat

text \<open>\<open>DocumentExtractor.get_text_stats\<close>.\<close>

definition get_text_stats :: "pystr \<Rightarrow> text_stats" where
  "get_text_stats text =
     (if text = [] then
        \<lparr>character_count = 0, word_count = 0, line_count = 0, paragraph_count = 0\<rparr>
      else
        \<lparr>character_count = length text,
         word_count = length (split_ws text),
         line_count = length (split text [10]),
         paragraph_count = length (filter (\<lambda>p. strip p \<noteq> []) (split text [10, 10]))\<rparr>)"

section \<open>Python values, exceptions and the outside world\<close>

text \<open>
  A decoded JSON document, as \<open>response.json()\<close> returns it: \<open>None\<close>, a bool, a number,
  a string, a list, or a dict with string keys (an association list with one entry per key).
\<close>

datatype json =
    JNull
  | JBool bool
  | JNum real
  | JStr pystr
  | JArr "json list"
  | JObj "(pystr \<times> json) list"

text \<open>
  Exceptions. The interpreter raises the first five; \<open>LibraryError\<close> stands for any
  exception raised inside a library call (file system, PDF and DOCX parsers, HTTP
  transport, JSON decoder) and carries its message.
\<close>

datatype exn =
    KeyError json
  | IndexError
  | TypeError
  | AttributeError
  | UnboundLocalError
  | LibraryError pystr

text \<open>The body of the HTTP request built by \<open>LLMClient.generate_response\<close>.\<close>

record payload =
  model :: pystr
  messages :: "(pystr \<times> pystr) list"
  temperature :: real
  max_tokens :: int

record request =
  url :: pystr
  request_headers :: "(pystr \<times> pystr) list"
  json_body :: payload
  timeout :: nat

text \<open>
  What the code reads from a \<open>requests.Response\<close>: \<open>status_code\<close>, \<open>text\<close> and the
  result of \<open>json()\<close>, which raises when the body is not JSON.
\<close>

record response =
  status_code :: int
  body_text :: pystr
  body_json :: "exn + json"

text \<open>
  Everything the two components obtain from outside the repository is a field of
  \<open>world\<close>, so that each theorem holds whatever the libraries do:
  \<^item> \<open>str_exc\<close>: \<open>str(e)\<close> of an exception;
  \<^item> \<open>lower\<close>: \<open>str.lower\<close>;
  \<^item> \<open>format_mb\<close>: the size in bytes rendered by \<open>f"{n / (1024 * 1024):.2f}"\<close>;
  \<^item> \<open>pdf_reader_path\<close>, \<open>pdf_reader_bytes\<close>: \<open>open\<close> and \<open>PyPDF2.PdfReader\<close>, which
    raise or give the pages in order, each page's \<open>extract_text()\<close> raising or giving text;
  \<^item> \<open>read_text\<close>: \<open>open(path, 'r', encoding='utf-8')\<close> followed by \<open>read()\<close>;
  \<^item> \<open>decode\<close>: \<open>bytes.decode(encoding)\<close>, \<open>None\<close> for \<open>UnicodeDecodeError\<close>;
  \<^item> \<open>docx_path\<close>, \<open>docx_bytes\<close>: \<open>docx.Document\<close>, which raises or gives the
    paragraph texts in order;
  \<^item> \<open>post\<close>: \<open>requests.post\<close>, which raises or gives a response.
\<close>

record world =
  str_exc :: "exn \<Rightarrow> pystr"
  lower :: "pystr \<Rightarrow> pystr"
  format_mb :: "nat \<Rightarrow> pystr"
  pdf_reader_path :: "pystr \<Rightarrow> exn + (exn + pystr) list"
  pdf_reader_bytes :: "bytes \<Rightarrow> exn + (exn + pystr) list"
  read_text :: "pystr \<Rightarrow> exn + pystr"
  decode :: "pystr \<Rightarrow> bytes \<Rightarrow> pystr option"
  docx_path :: "pystr \<Rightarrow> exn + pystr list"
  docx_bytes :: "bytes \<Rightarrow> exn + pystr list"
  post :: "request \<Rightarrow> exn + response"

section \<open>config.py\<close>

definition DEFAULT_MODEL :: pystr where
  "DEFAULT_MODEL = py ''meta-llama/Meta-Llama-3.1-8B-Instruct-Turbo''"

definition MAX_TOKENS :: int where
  "MAX_TOKENS = 4000"

definition TEMPERATURE :: real where
  "TEMPERATURE = 1 / 10"

definition MAX_FILE_SIZE :: nat where
  "MAX_FILE_SIZE = 10 * 1024 * 1024"

definition SUPPORTED_FILE_TYPES :: "pystr list" where
  "SUPPORTED_FILE_TYPES = [py ''pdf'', py ''txt'', py ''docx'']"

text \<open>
  \<open>str\<close> of a list of plain strings, as the f-string of the unsupported-type message
  prints \<open>self.supported_types\<close>: \<open>['pdf', 'txt', 'docx']\<close>.
\<close>

definition str_list :: "pystr list \<Rightarrow> pystr" where
  "str_list xs = [91] @ join (py '', '') (map (\<lambda>x. [39] @ x @ [39]) xs) @ [93]"

section \<open>utils/pdf\_extractor.py: extraction\<close>

text \<open>
  An extraction result is the tuple \<open>(success, text, error_message)\<close>.
\<close>

type_synonym extraction = "bool \<times> pystr \<times> pystr"

text \<open>
  Lines 35 to 42 of \<open>extract_text_from_file\<close>: the file type comes from the path's
  extension when a path is given, from the declared type when content and type are both
  given (each test is Python truthiness: \<open>None\<close> and the empty value fail it), and is
  missing otherwise. \<open>split('.')\<close> never returns an empty list, so \<open>[-1]\<close> is its last
  element.
\<close>

fun determine_file_type ::
  "world \<Rightarrow> pystr option \<Rightarrow> bytes option \<Rightarrow> pystr option \<Rightarrow> pystr option" where
  "determine_file_type w (Some (c # cs)) file_content file_type =
     Some (lower w (last (split (c # cs) [46])))"
| "determine_file_type w file_path (Some (b # bs)) (Some (t # ts)) =
     Some (lower w (t # ts))"
| "determine_file_type w file_path file_content file_type = None"

text \<open>Line 49: \<open>file_content and len(file_content) > self.max_file_size\<close>.\<close>

fun too_large :: "bytes option \<Rightarrow> bool" where
  "too_large None = False"
| "too_large (Some bs) = (bs \<noteq> [] \<and> length bs > MAX_FILE_SIZE)"

text \<open>\<open>len(file_content)\<close>, read only where \<open>file_content\<close> is truthy.\<close>

fun content_length :: "bytes option \<Rightarrow> nat" where
  "content_length None = 0"
| "content_length (Some bs) = length bs"

text \<open>The loop over the pages: \<open>text += page_text + "\n"\<close>, left at the first exception.\<close>

fun read_pages :: "(exn + pystr) list \<Rightarrow> pystr \<Rightarrow> exn + pystr" where
  "read_pages [] text = Inr text"
| "read_pages (Inl e # pages) text = Inl e"
| "read_pages (Inr page_text # pages) text = read_pages pages (text @ page_text @ [10])"

text \<open>
  \<open>_extract_pdf_text\<close> up to line 88: the raw text, or the exception that the handler of
  line 99 catches.
\<close>

fun pdf_raw_text :: "world \<Rightarrow> pystr option \<Rightarrow> bytes option \<Rightarrow> exn + pystr" where
  "pdf_raw_text w (Some (c # cs)) file_content =
     (case pdf_reader_path w (c # cs) of
        Inl e \<Rightarrow> Inl e
      | Inr pages \<Rightarrow> read_pages pages [])"
| "pdf_raw_text w file_path (Some (b # bs)) =
     (case pdf_reader_bytes w (b # bs) of
        Inl e \<Rightarrow> Inl e
      | Inr pages \<Rightarrow> read_pages pages [])"
| "pdf_raw_text w file_path file_content = Inr []"

definition extract_pdf_text :: "world \<Rightarrow> pystr option \<Rightarrow> bytes option \<Rightarrow> extraction" where
  "extract_pdf_text w file_path file_content =
     (case pdf_raw_text w file_path file_content of
        Inl e \<Rightarrow> (False, [], py ''Error reading PDF: '' @ str_exc w e)
      | Inr raw \<Rightarrow>
          (let text = clean_text raw in
           if strip text = [] then (False, [], py ''No text found in PDF file'')
           else (True, text, [])))"

text \<open>
  The \<open>for ... else\<close> loop over the fallback encodings: the first encoding that decodes
  wins, \<open>None\<close> when the list is exhausted.
\<close>

fun decode_fallback :: "world \<Rightarrow> bytes \<Rightarrow> pystr list \<Rightarrow> pystr option" where
  "decode_fallback w bs [] = None"
| "decode_fallback w bs (encoding # encodings) =
     (case decode w encoding bs of
        Some text \<Rightarrow> Some text
      | None \<Rightarrow> decode_fallback w bs encodings)"

text \<open>
  \<open>_extract_txt_text\<close> up to line 122 ends in one of three ways: an exception for the
  handler of line 133 (with neither path nor content, \<open>text\<close> is unbound at line 125),
  the early return of line 122, or the raw text.
\<close>

datatype txt_read = TxtRaised exn | TxtUndecodable | TxtText pystr

fun txt_raw_text :: "world \<Rightarrow> pystr option \<Rightarrow> bytes option \<Rightarrow> txt_read" where
  "txt_raw_text w (Some (c # cs)) file_content =
     (case read_text w (c # cs) of
        Inl e \<Rightarrow> TxtRaised e
      | Inr text \<Rightarrow> TxtText text)"
| "txt_raw_text w file_path (Some (b # bs)) =
     (case decode w (py ''utf-8'') (b # bs) of
        Some text \<Rightarrow> TxtText text
      | None \<Rightarrow>
          (case decode_fallback w (b # bs) [py ''latin-1'', py ''ascii'', py ''cp1252''] of
             Some text \<Rightarrow> TxtText text
           | None \<Rightarrow> TxtUndecodable))"
| "txt_raw_text w file_path file_content = TxtRaised UnboundLocalError"

definition extract_txt_text :: "world \<Rightarrow> pystr option \<Rightarrow> bytes option \<Rightarrow> extraction" where
  "extract_txt_text w file_path file_content =
     (case txt_raw_text w file_path file_content of
        TxtRaised e \<Rightarrow> (False, [], py ''Error reading TXT file: '' @ str_exc w e)
      | TxtUndecodable \<Rightarrow> (False, [], py ''Unable to decode text file with common encodings'')
      | TxtText raw \<Rightarrow>
          (let text = clean_text raw in
           if strip text = [] then (False, [], py ''No text found in file'')
           else (True, text, [])))"

text \<open>The loop over the paragraphs: \<open>text += paragraph.text + "\n"\<close>.\<close>

fun read_paragraphs :: "pystr list \<Rightarrow> pystr \<Rightarrow> pystr" where
  "read_paragraphs [] text = text"
| "read_paragraphs (paragraph # paragraphs) text =
     read_paragraphs paragraphs (text @ paragraph @ [10])"

fun docx_raw_text :: "world \<Rightarrow> pystr option \<Rightarrow> bytes option \<Rightarrow> exn + pystr" where
  "docx_raw_text w (Some (c # cs)) file_content =
     (case docx_path w (c # cs) of
        Inl e \<Rightarrow> Inl e
      | Inr paragraphs \<Rightarrow> Inr (read_paragraphs paragraphs []))"
| "docx_raw_text w file_path (Some (b # bs)) =
     (case docx_bytes w (b # bs) of
        Inl e \<Rightarrow> Inl e
      | Inr paragraphs \<Rightarrow> Inr (read_paragraphs paragraphs []))"
| "docx_raw_text w file_path file_content = Inr []"

definition extract_docx_text :: "world \<Rightarrow> pystr option \<Rightarrow> bytes option \<Rightarrow> extraction" where
  "extract_docx_text w file_path file_content =
     (case docx_raw_text w file_path file_content of
        Inl e \<Rightarrow> (False, [], py ''Error reading DOCX file: '' @ str_exc w e)
      | Inr raw \<Rightarrow>
          (let text = clean_text raw in
           if strip text = [] then (False, [], py ''No text found in DOCX file'')
           else (True, text, [])))"

text \<open>
  \<open>DocumentExtractor.extract_text_from_file\<close>. With a path of type \<open>str\<close>, content of
  type \<open>bytes\<close> and a type tag of type \<open>str\<close>, no statement of its own body raises (the
  three helpers catch their own exceptions), so the handler of line 63 is never entered.
  The limit printed by the size message is \<open>self.max_file_size / (1024 * 1024)\<close>, the
  float \<open>10.0\<close>.
\<close>

definition extract_text_from_file ::
  "world \<Rightarrow> pystr option \<Rightarrow> bytes option \<Rightarrow> pystr option \<Rightarrow> extraction" where
  "extract_text_from_file w file_path file_content file_type =
     (case determine_file_type w file_path file_content file_type of
        None \<Rightarrow> (False, [], py ''No file provided or file type not specified'')
      | Some ft \<Rightarrow>
          if ft \<notin> set SUPPORTED_FILE_TYPES then
            (False, [], py ''Unsupported file type: '' @ ft @ py ''. Supported types: ''
                          @ str_list SUPPORTED_FILE_TYPES)
          else if too_large file_content then
            (False, [], py ''File too large: '' @ format_mb w (content_length file_content)
                          @ py ''MB. Maximum size: '' @ py ''10.0'' @ py ''MB'')
          else if ft = py ''pdf'' then extract_pdf_text w file_path file_content
          else if ft = py ''txt'' then extract_txt_text w file_path file_content
          else if ft = py ''docx'' then extract_docx_text w file_path file_content
          else (False, [], py ''Extraction method not implemented for '' @ ft))"

section \<open>utils/llm\_client.py\<close>

text \<open>The failure marker: the cross mark U+274C.\<close>

definition cross_mark :: pystr where
  "cross_mark = [10060]"

text \<open>
  The attributes of an \<open>LLMClient\<close>. \<open>client\<close> is \<open>None\<close> (false) or \<open>True\<close>;
  \<open>api_url\<close>, \<open>headers\<close> and \<open>default_model\<close> are assigned only on the enabled branch
  of the constructor, so a disabled client does not have them (\<open>None\<close> here).
\<close>

record LLMClient =
  api_key :: "pystr option"
  client :: bool
  api_url :: "pystr option"
  headers :: "(pystr \<times> pystr) list option"
  default_model :: "pystr option"

text \<open>
  \<open>LLMClient.__init__(api_key)\<close>; the second argument is \<open>Config.TOGETHER_API_KEY\<close>,
  read from the process environment. The enabled branch builds two strings and a dict,
  which cannot raise, so its handler is never entered.
\<close>

fun LLMClient_init :: "pystr option \<Rightarrow> pystr option \<Rightarrow> LLMClient" where
  "LLMClient_init (Some (c # cs)) TOGETHER_API_KEY =
     \<lparr>api_key = Some (c # cs), client = True,
      api_url = Some (py ''https://api.together.xyz/v1/chat/completions''),
      headers = Some [(py ''Authorization'', py ''Bearer '' @ (c # cs)),
                      (py ''Content-Type'', py ''application/json'')],
      default_model = Some DEFAULT_MODEL\<rparr>"
| "LLMClient_init given (Some (c # cs)) =
     \<lparr>api_key = Some (c # cs), client = True,
      api_url = Some (py ''https://api.together.xyz/v1/chat/completions''),
      headers = Some [(py ''Authorization'', py ''Bearer '' @ (c # cs)),
                      (py ''Content-Type'', py ''application/json'')],
      default_model = Some DEFAULT_MODEL\<rparr>"
| "LLMClient_init given TOGETHER_API_KEY =
     \<lparr>api_key = TOGETHER_API_KEY, client = False,
      api_url = None, headers = None, default_model = None\<rparr>"

text \<open>
  Lines 42 to 67 of \<open>generate_response\<close>, up to the call of \<open>requests.post\<close>: each
  argument is replaced by its default when it is falsy (\<open>x or default\<close>: \<open>None\<close>, the
  empty string, zero). Reading an attribute the client does not have raises. The
  temperature is a real number here: the code only compares it with zero and passes it on.
\<close>

definition build_request ::
  "LLMClient \<Rightarrow> pystr \<Rightarrow> pystr option \<Rightarrow> real option \<Rightarrow> int option \<Rightarrow> exn + request" where
  "build_request self prompt model_arg temperature_arg max_tokens_arg =
     (case (if truthy model_arg then model_arg else default_model self) of
        None \<Rightarrow> Inl AttributeError
      | Some m \<Rightarrow>
          (let t = (case temperature_arg of
                      None \<Rightarrow> TEMPERATURE
                    | Some x \<Rightarrow> if x = 0 then TEMPERATURE else x);
               n = (case max_tokens_arg of
                      None \<Rightarrow> MAX_TOKENS
                    | Some x \<Rightarrow> if x = 0 then MAX_TOKENS else x);
               p = \<lparr>model = m, messages = [(py ''user'', prompt)],
                    temperature = t, max_tokens = n\<rparr>
           in case api_url self of
                None \<Rightarrow> Inl AttributeError
              | Some u \<Rightarrow>
                  (case headers self of
                     None \<Rightarrow> Inl AttributeError
                   | Some h \<Rightarrow>
                       Inr \<lparr>url = u, request_headers = h, json_body = p, timeout = 30\<rparr>)))"

text \<open>Subscription \<open>obj[key]\<close> with a string key, and \<open>obj[0]\<close>.\<close>

fun getitem_key :: "json \<Rightarrow> pystr \<Rightarrow> exn + json" where
  "getitem_key (JObj kvs) k =
     (case map_of kvs k of Some v \<Rightarrow> Inr v | None \<Rightarrow> Inl (KeyError (JStr k)))"
| "getitem_key other k = Inl TypeError"

fun getitem_0 :: "json \<Rightarrow> exn + json" where
  "getitem_0 (JArr []) = Inl IndexError"
| "getitem_0 (JArr (x # xs)) = Inr x"
| "getitem_0 (JStr []) = Inl IndexError"
| "getitem_0 (JStr (c # cs)) = Inr (JStr [c])"
| "getitem_0 (JObj kvs) = Inl (KeyError (JNum 0))"
| "getitem_0 other = Inl TypeError"

text \<open>\<open>len(obj)\<close>.\<close>

fun py_len :: "json \<Rightarrow> exn + nat" where
  "py_len (JStr s) = Inr (length s)"
| "py_len (JArr xs) = Inr (length xs)"
| "py_len (JObj kvs) = Inr (length kvs)"
| "py_len other = Inl TypeError"

text \<open>
  Lines 70 to 73: \<open>response.json()['choices'][0]['message']['content']\<close>, then
  \<open>len(result)\<close> inside the log message.
\<close>

definition first_choice_content :: "response \<Rightarrow> exn + json" where
  "first_choice_content r =
     (case body_json r of
        Inl e \<Rightarrow> Inl e
      | Inr result_data \<Rightarrow>
          (case getitem_key result_data (py ''choices'') of
             Inl e \<Rightarrow> Inl e
           | Inr choices \<Rightarrow>
               (case getitem_0 choices of
                  Inl e \<Rightarrow> Inl e
                | Inr choice \<Rightarrow>
                    (case getitem_key choice (py ''message'') of
                       Inl e \<Rightarrow> Inl e
                     | Inr message \<Rightarrow>
                         (case getitem_key message (py ''content'') of
                            Inl e \<Rightarrow> Inl e
                          | Inr result \<Rightarrow>
                              (case py_len result of
                                 Inl e \<Rightarrow> Inl e
                               | Inr n \<Rightarrow> Inr result))))))"

text \<open>The string returned by the handler of line 79.\<close>

definition call_failed :: "world \<Rightarrow> exn \<Rightarrow> json" where
  "call_failed w e = JStr (cross_mark @ py '' API call failed: '' @ str_exc w e)"

text \<open>
  \<open>LLMClient.generate_response\<close>. The result is the returned value together with the
  requests handed to \<open>requests.post\<close>, in order. The returned value is a string on every
  path but the successful one, where it is whatever the response holds as content.
\<close>

definition generate_response ::
  "world \<Rightarrow> LLMClient \<Rightarrow> pystr \<Rightarrow> pystr option \<Rightarrow> real option \<Rightarrow> int option
     \<Rightarrow> json \<times> request list" where
  "generate_response w self prompt model_arg temperature_arg max_tokens_arg =
     (if \<not> client self then
        (JStr (cross_mark @ py '' API client not initialized, please check API key configuration''), [])
      else
        case build_request self prompt model_arg temperature_arg max_tokens_arg of
          Inl e \<Rightarrow> (call_failed w e, [])
        | Inr req \<Rightarrow>
            (case post w req of
               Inl e \<Rightarrow> (call_failed w e, [req])
             | Inr resp \<Rightarrow>
                 if status_code resp = 200 then
                   (case first_choice_content resp of
                      Inl e \<Rightarrow> (call_failed w e, [req])
                    | Inr result \<Rightarrow> (result, [req]))
                 else
                   (JStr (cross_mark @ py '' API request failed with status ''
                            @ str_int (status_code resp) @ py '': '' @ body_text resp),
                    [req])))"

text \<open>The f-string prompts of \<open>summarize_text\<close> and \<open>answer_question\<close>.\<close>

definition summary_prompt :: "pystr \<Rightarrow> int \<Rightarrow> pystr" where
  "summary_prompt text max_length =
     [10] @ py ''Please generate a concise summary of the following text, no more than ''
       @ str_int max_length @ py '' words:'' @ [10, 10]
       @ py ''Text content:'' @ [10] @ text @ [10, 10] @ py ''Summary:'' @ [10]"

definition question_prompt :: "pystr \<Rightarrow> pystr \<Rightarrow> pystr" where
  "question_prompt ctxt question =
     [10] @ py ''Based on the following document content, please answer the user's question. If the document doesn't contain relevant information, please state ''
       @ [34] @ py ''No relevant information found in the document.'' @ [34] @ [10, 10]
       @ py ''Document content:'' @ [10] @ ctxt @ [10, 10]
       @ py ''User question: '' @ question @ [10, 10] @ py ''Answer:'' @ [10]"

text \<open>\<open>LLMClient.summarize_text(text, max_length)\<close>; \<open>max_length\<close> defaults to 200.\<close>

definition summarize_text :: "world \<Rightarrow> LLMClient \<Rightarrow> pystr \<Rightarrow> int \<Rightarrow> json \<times> request list" where
  "summarize_text w self text max_length =
     (if \<not> client self then
        (JStr (cross_mark @ py '' Cannot generate summary: API client not initialized''), [])
      else
        generate_response w self (summary_prompt text max_length)
          None None (Some (max_length + 50)))"

text \<open>\<open>LLMClient.answer_question(context, question)\<close>.\<close>

definition answer_question :: "world \<Rightarrow> LLMClient \<Rightarrow> pystr \<Rightarrow> pystr \<Rightarrow> json \<times> request list" where
  "answer_question w self ctxt question =
     (if \<not> client self then
        (JStr (cross_mark @ py '' Cannot answer question: API client not initialized''), [])
      else
        generate_response w self (question_prompt ctxt question) None None None)"

text \<open>\<open>needle in obj\<close> for a string needle: substring, list element, or dict key.\<close>

fun py_in :: "pystr \<Rightarrow> json \<Rightarrow> exn + bool" where
  "py_in needle (JStr s) = Inr (sublist needle s)"
| "py_in needle (JArr xs) = Inr (JStr needle \<in> set xs)"
| "py_in needle (JObj kvs) = Inr (needle \<in> fst ` set kvs)"
| "py_in needle other = Inl TypeError"

text \<open>\<open>LLMClient.test_connection\<close>; the second component of the pair is a Python value.\<close>

definition test_connection :: "world \<Rightarrow> LLMClient \<Rightarrow> (bool \<times> json) \<times> request list" where
  "test_connection w self =
     (if \<not> client self then ((False, JStr (py ''API client not initialized'')), [])
      else
        case generate_response w self
               (py ''Please reply 'Connection test successful' to confirm the API is working.'')
               None None (Some 50) of
          (resp, sent) \<Rightarrow>
            (case py_in cross_mark resp of
               Inl e \<Rightarrow> ((False, JStr (str_exc w e)), sent)
             | Inr found \<Rightarrow> if \<not> found then ((True, resp), sent) else ((False, resp), sent)))"

section \<open>Reference definitions and a sample world\<close>

text \<open>
  The ExtractionResult invariant of the specification: exactly one of
  (ok and text non-empty) or (not ok and error non-empty).
\<close>

definition result_invariant :: "extraction \<Rightarrow> bool" where
  "result_invariant r =
     (case r of (ok, text, error) \<Rightarrow> (ok \<and> text \<noteq> []) \<noteq> (\<not> ok \<and> error \<noteq> []))"

text \<open>
  The statistics as the specification words them. A whitespace-delimited token starts
  at every non-whitespace character that is the first character or follows a whitespace
  character; the newline-delimited segments of a non-empty text are one more than its
  newlines; every field is 0 for the empty text.
\<close>

definition spec_word_count :: "pystr \<Rightarrow> nat" where
  "spec_word_count t =
     length (filter (\<lambda>i. \<not> isspace (t ! i) \<and> (i = 0 \<or> isspace (t ! (i - 1)))) [0..<length t])"

definition spec_line_count :: "pystr \<Rightarrow> nat" where
  "spec_line_count t = (if t = [] then 0 else Suc (count_list t 10))"

text \<open>A string is failure-marked when it begins with the cross mark.\<close>

fun marked :: "json \<Rightarrow> bool" where
  "marked (JStr s) = prefix cross_mark s"
| "marked other = False"

text \<open>
  A world for the worked examples: \<open>lower\<close> is ASCII lowercasing, no file exists, the
  network is down, and every parser and decoder reads the bytes as Latin-1 text (a PDF
  has one page, a DOCX one paragraph).
\<close>

definition ascii_lower :: "pystr \<Rightarrow> pystr" where
  "ascii_lower s = map (\<lambda>c. if 65 \<le> c \<and> c \<le> 90 then c + 32 else c) s"

definition sample_world :: world where
  "sample_world =
     \<lparr>str_exc = (\<lambda>e. case e of LibraryError m \<Rightarrow> m | _ \<Rightarrow> py ''error''),
      lower = ascii_lower,
      format_mb = (\<lambda>n. str_nat (n div 1048576)),
      pdf_reader_path = (\<lambda>p. Inl (LibraryError (py ''No such file or directory''))),
      pdf_reader_bytes = (\<lambda>bs. Inr [Inr (map unat bs)]),
      read_text = (\<lambda>p. Inl (LibraryError (py ''No such file or directory''))),
      decode = (\<lambda>encoding bs. Some (map unat bs)),
      docx_path = (\<lambda>p. Inl (LibraryError (py ''No such file or directory''))),
      docx_bytes = (\<lambda>bs. Inr [map unat bs]),
      post = (\<lambda>req. Inl (LibraryError (py ''Connection refused'')))\<rparr>"

section \<open>Auxiliary notions for the proofs\<close>

text \<open>A line is trimmed when it is non-empty and neither starts nor ends with whitespace.\<close>

definition trimmed :: "pystr \<Rightarrow> bool" where
  "trimmed l \<longleftrightarrow> l \<noteq> [] \<and> \<not> isspace (hd l) \<and> \<not> isspace (last l)"

text \<open>The shape of every normalised text: trimmed, newline-free, space-collapsed lines.\<close>

definition clean_lines :: "pystr list \<Rightarrow> bool" where
  "clean_lines ls \<longleftrightarrow> (\<forall>l\<in>set ls. trimmed l \<and> 10 \<notin> set l \<and> sub_spaces l = l)"

text \<open>
  The token starts of a text, read from the left; the flag tells whether the position
  before the text counts as whitespace.
\<close>

fun token_starts :: "bool \<Rightarrow> pystr \<Rightarrow> nat" where
  "token_starts prev [] = 0"
| "token_starts prev (c # cs) =
     (if \<not> isspace c \<and> prev then 1 else 0) + token_starts (isspace c) cs"

text \<open>A text has no blank line separator when no newline directly follows a newline.\<close>

fun no_blank :: "pystr \<Rightarrow> bool" where
  "no_blank [] = True"
| "no_blank [c] = True"
| "no_blank (a # b # cs) = (\<not> (a = 10 \<and> b = 10) \<and> no_blank (b # cs))"

section \<open>Facts about the string operations\<close>

lemma dropWhile_hd_id: "xs = [] \<or> \<not> P (hd xs) \<Longrightarrow> dropWhile P xs = xs"
  by (cases xs) auto

lemma last_dropWhile: "dropWhile P xs \<noteq> [] \<Longrightarrow> last (dropWhile P xs) = last xs"
proof -
  assume ne: "dropWhile P xs \<noteq> []"
  have "last xs = last (takeWhile P xs @ dropWhile P xs)" by simp
  also have "\<dots> = last (dropWhile P xs)" using ne by (rule last_appendR)
  finally show ?thesis by simp
qed

lemma strip_subset: "set (strip l) \<subseteq> set l"
proof
  fix x
  assume "x \<in> set (strip l)"
  then have "x \<in> set (dropWhile isspace (rev (dropWhile isspace l)))"
    by (simp add: strip_def)
  then have "x \<in> set (rev (dropWhile isspace l))" by (rule set_dropWhileD)
  then have "x \<in> set (dropWhile isspace l)" by simp
  then show "x \<in> set l" by (rule set_dropWhileD)
qed

lemma strip_trimmed: "strip l \<noteq> [] \<Longrightarrow> trimmed (strip l)"
proof -
  assume ne: "strip l \<noteq> []"
  let ?a = "dropWhile isspace l"
  let ?b = "dropWhile isspace (rev ?a)"
  have s: "strip l = rev ?b" by (simp add: strip_def)
  have b: "?b \<noteq> []" using ne by (simp add: strip_def)
  then have hb: "\<not> isspace (hd ?b)" by (rule hd_dropWhile)
  have a: "?a \<noteq> []"
  proof
    assume e: "?a = []"
    have "?b = []" unfolding e by simp
    with b show False by contradiction
  qed
  then have ha: "\<not> isspace (hd ?a)" by (rule hd_dropWhile)
  have "last ?b = last (rev ?a)" using b by (rule last_dropWhile)
  also have "\<dots> = hd ?a" using a by (simp add: last_rev)
  finally have lb: "\<not> isspace (last ?b)" using ha by simp
  have "hd (rev ?b) = last ?b" using b by (simp add: hd_rev)
  moreover have "last (rev ?b) = hd ?b" using b by (simp add: last_rev)
  ultimately show ?thesis using b hb lb unfolding s trimmed_def by simp
qed

lemma strip_id: "trimmed l \<Longrightarrow> strip l = l"
proof -
  assume t: "trimmed l"
  have 1: "dropWhile isspace l = l"
    using t by (intro dropWhile_hd_id) (simp add: trimmed_def)
  have "\<not> isspace (hd (rev l))" using t by (simp add: trimmed_def hd_rev)
  then have "dropWhile isspace (rev l) = rev l"
    by (intro dropWhile_hd_id) simp
  then show ?thesis using 1 by (simp add: strip_def)
qed

lemma sub_spaces_Nil_iff: "sub_spaces s = [] \<longleftrightarrow> s = []"
  by (cases s) auto

lemma hd_sub_spaces: "hd (sub_spaces s) = hd s"
  by (cases s) auto

lemma last_sub_spaces: "s \<noteq> [] \<Longrightarrow> last (sub_spaces s) = last s"
proof (induction s rule: sub_spaces.induct)
  case 1
  then show ?case by simp
next
  case (2 c cs)
  show ?case
  proof (cases "c = 32")
    case True
    show ?thesis
    proof (cases "dropWhile (\<lambda>x. x = 32) cs = []")
      case e: True
      then have "\<forall>x\<in>set cs. x = 32" by simp
      then have "last (c # cs) = 32" using True by (cases cs rule: rev_cases) auto
      moreover have "sub_spaces (c # cs) = [32]"
        using True by (simp del: dropWhile_eq_Nil_conv add: e)
      ultimately show ?thesis by simp
    next
      case ne: False
      then have "last (sub_spaces (dropWhile (\<lambda>x. x = 32) cs)) = last (dropWhile (\<lambda>x. x = 32) cs)"
        using 2(1) True by simp
      also have "\<dots> = last cs" using ne by (rule last_dropWhile)
      finally show ?thesis using True ne by (auto simp: sub_spaces_Nil_iff)
    qed
  next
    case False
    then show ?thesis using 2(2) by (cases cs) (auto simp: sub_spaces_Nil_iff)
  qed
qed

lemma set_sub_spaces: "set (sub_spaces s) \<subseteq> set s"
proof (induction s rule: sub_spaces.induct)
  case 1
  then show ?case by simp
next
  case (2 c cs)
  show ?case
  proof (cases "c = 32")
    case True
    have "set (dropWhile (\<lambda>x. x = 32) cs) \<subseteq> set cs"
      by (auto dest: set_dropWhileD)
    then show ?thesis using 2(1) True by auto
  next
    case False
    then show ?thesis using 2(2) by auto
  qed
qed

lemma sub_spaces_idem: "sub_spaces (sub_spaces s) = sub_spaces s"
proof (induction s rule: sub_spaces.induct)
  case 1
  then show ?case by simp
next
  case (2 c cs)
  show ?case
  proof (cases "c = 32")
    case True
    let ?d = "dropWhile (\<lambda>x. x = 32) cs"
    have "?d = [] \<or> hd ?d \<noteq> 32" using hd_dropWhile [of "\<lambda>x. x = 32" cs] by auto
    then have "sub_spaces ?d = [] \<or> hd (sub_spaces ?d) \<noteq> 32"
      by (simp add: sub_spaces_Nil_iff hd_sub_spaces)
    then have "dropWhile (\<lambda>x. x = 32) (sub_spaces ?d) = sub_spaces ?d"
      by (intro dropWhile_hd_id) simp
    then show ?thesis using 2(1) True by simp
  next
    case False
    then show ?thesis using 2(2) by simp
  qed
qed

lemma dropWhile_space_newline:
  "dropWhile (\<lambda>x. x = 32) (cs @ 10 # ys) = dropWhile (\<lambda>x. x = (32::nat)) cs @ 10 # ys"
  by (induction cs) auto

lemma sub_spaces_newline: "sub_spaces (xs @ 10 # ys) = sub_spaces xs @ 10 # sub_spaces ys"
proof (induction xs rule: sub_spaces.induct)
  case 1
  then show ?case by simp
next
  case (2 c cs)
  then show ?case by (simp add: dropWhile_space_newline)
qed

lemma sub_spaces_join: "sub_spaces (join [10] ls) = join [10] (map sub_spaces ls)"
  by (induction ls rule: induct_list012) (simp_all add: sub_spaces_newline)

lemma split_from_line:
  "10 \<notin> set l \<Longrightarrow> split_from [10] cur (l @ rest) = split_from [10] (cur @ l) rest"
  by (induction l arbitrary: cur) auto

lemma split_from_join:
  "ls \<noteq> [] \<Longrightarrow> \<forall>l\<in>set ls. 10 \<notin> set l \<Longrightarrow>
   split_from [10] cur (join [10] ls) = (cur @ hd ls) # tl ls"
proof (induction ls arbitrary: cur rule: induct_list012)
  case 1
  then show ?case by simp
next
  case (2 x)
  then show ?case using split_from_line [of x cur "[]"] by simp
next
  case (3 x y ys)
  have "split_from [10] cur (x @ 10 # join [10] (y # ys)) =
        split_from [10] (cur @ x) (10 # join [10] (y # ys))"
    using 3(4) split_from_line [of x cur "10 # join [10] (y # ys)"] by simp
  also have "\<dots> = (cur @ x) # split_from [10] [] (join [10] (y # ys))" by simp
  also have "split_from [10] [] (join [10] (y # ys)) = y # ys"
    using 3(2) [of "[]"] 3(4) by simp
  finally show ?case by simp
qed

lemma split_from_nl_free:
  "10 \<notin> set cur \<Longrightarrow> l \<in> set (split_from [10] cur s) \<Longrightarrow> 10 \<notin> set l"
proof (induction s arbitrary: cur)
  case Nil
  then show ?case by simp
next
  case (Cons c cs)
  show ?case
  proof (cases "c = 10")
    case True
    then have "l = cur \<or> l \<in> set (split_from [10] [] cs)" using Cons.prems(2) by simp
    then show ?thesis using Cons.prems(1) Cons.IH [of "[]"] by auto
  next
    case False
    then have "l \<in> set (split_from [10] (cur @ [c]) cs)" using Cons.prems(2) by simp
    then show ?thesis using Cons.prems(1) False Cons.IH [of "cur @ [c]"] by auto
  qed
qed

lemma trimmed_sub_spaces: "trimmed l \<Longrightarrow> trimmed (sub_spaces l)"
  by (simp add: trimmed_def sub_spaces_Nil_iff hd_sub_spaces last_sub_spaces)

lemma clean_text_lines: "\<exists>ls. clean_lines ls \<and> clean_text s = join [10] ls"
proof (cases "s = []")
  case True
  have "clean_lines []" by (simp add: clean_lines_def)
  moreover have "clean_text s = join [10] []" using True by (simp add: clean_text_def)
  ultimately show ?thesis by blast
next
  case False
  let ?cl = "filter (\<lambda>l. l \<noteq> []) (map strip (split s [10]))"
  have eq: "clean_text s = join [10] (map sub_spaces ?cl)"
    using False by (simp add: clean_text_def sub_spaces_join)
  have "clean_lines (map sub_spaces ?cl)"
    unfolding clean_lines_def
  proof
    fix l
    assume "l \<in> set (map sub_spaces ?cl)"
    then obtain r where r: "r \<in> set (split s [10])" "strip r \<noteq> []" "l = sub_spaces (strip r)"
      by auto
    have "10 \<notin> set r" using r(1) split_from_nl_free [of "[]" r s] by (simp add: split_def)
    then have "10 \<notin> set (strip r)" using strip_subset [of r] by auto
    then have "10 \<notin> set l" using set_sub_spaces [of "strip r"] r(3) by auto
    moreover have "trimmed l" using r(2,3) by (simp add: strip_trimmed trimmed_sub_spaces)
    moreover have "sub_spaces l = l" using r(3) by (simp add: sub_spaces_idem)
    ultimately show "trimmed l \<and> 10 \<notin> set l \<and> sub_spaces l = l" by simp
  qed
  with eq show ?thesis by blast
qed

lemma clean_text_join: "clean_lines ls \<Longrightarrow> clean_text (join [10] ls) = join [10] ls"
proof (cases "ls = []")
  case True
  then show ?thesis by (simp add: clean_text_def)
next
  case False
  assume c: "clean_lines ls"
  have nl: "\<forall>l\<in>set ls. 10 \<notin> set l" using c by (simp add: clean_lines_def)
  have sp: "split (join [10] ls) [10] = ls"
    using split_from_join [OF False nl, of "[]"] False by (simp add: split_def)
  have st: "map strip ls = ls"
    using c by (intro map_idI) (simp add: clean_lines_def strip_id)
  have ne: "filter (\<lambda>l. l \<noteq> []) ls = ls"
    using c by (intro filter_True) (simp add: clean_lines_def trimmed_def)
  have ss: "map sub_spaces ls = ls"
    using c by (intro map_idI) (simp add: clean_lines_def)
  show ?thesis
    by (simp add: clean_text_def sp st ne sub_spaces_join ss)
qed

text \<open>
  C2. Normalisation is idempotent: cleaning a cleaned text changes nothing, for every
  string.
\<close>

theorem clean_text_idempotent: "clean_text (clean_text s) = clean_text s"
proof -
  obtain ls where "clean_lines ls" "clean_text s = join [10] ls"
    using clean_text_lines by blast
  then show ?thesis by (simp add: clean_text_join)
qed

section \<open>The extractor\<close>

lemma strip_Nil: "strip [] = []"
  by (simp add: strip_def)

lemma extract_pdf_text_invariant: "result_invariant (extract_pdf_text w file_path file_content)"
  by (auto simp: extract_pdf_text_def result_invariant_def Let_def py_def strip_Nil
           split: sum.splits)

lemma extract_txt_text_invariant: "result_invariant (extract_txt_text w file_path file_content)"
  by (auto simp: extract_txt_text_def result_invariant_def Let_def py_def strip_Nil
           split: txt_read.splits)

lemma extract_docx_text_invariant: "result_invariant (extract_docx_text w file_path file_content)"
  by (auto simp: extract_docx_text_def result_invariant_def Let_def py_def strip_Nil
           split: sum.splits)

text \<open>
  C1. Every result of \<open>extract_text_from_file\<close> satisfies the ExtractionResult
  invariant, whatever the path, the content, the type tag and the behaviour of the
  libraries (every exception they raise included): exactly one of (ok and text non-empty)
  or (not ok and error message non-empty) holds.
\<close>

theorem extract_result_invariant:
  "result_invariant (extract_text_from_file w file_path file_content file_type)"
proof (cases "determine_file_type w file_path file_content file_type")
  case None
  then show ?thesis
    by (simp add: extract_text_from_file_def result_invariant_def py_def)
next
  case (Some ft)
  have fail: "\<And>m. m \<noteq> [] \<Longrightarrow> result_invariant (False, [], m)"
    by (simp add: result_invariant_def)
  show ?thesis
    unfolding extract_text_from_file_def Some option.case
    by (simp add: extract_pdf_text_invariant extract_txt_text_invariant
          extract_docx_text_invariant fail py_def)
qed

lemma str_list_supported:
  "str_list SUPPORTED_FILE_TYPES = py ''['pdf', 'txt', 'docx']''"
  by (simp add: str_list_def SUPPORTED_FILE_TYPES_def py_def)

text \<open>
  C3. Whenever the raw text obtained from a document is empty or whitespace-only after
  normalisation, \<open>extract_text_from_file\<close> fails with a message that begins
  "No text found". This holds for each of the three supported formats, for a path as
  for uploaded content, and although the format's parser itself succeeded.
\<close>

theorem no_text_found:
  assumes ft: "determine_file_type w file_path file_content file_type = Some ft"
    and size: "\<not> too_large file_content"
    and raw: "(ft = py ''pdf'' \<and> pdf_raw_text w file_path file_content = Inr raw)
       \<or> (ft = py ''txt'' \<and> txt_raw_text w file_path file_content = TxtText raw)
       \<or> (ft = py ''docx'' \<and> docx_raw_text w file_path file_content = Inr raw)"
    and blank: "strip (clean_text raw) = []"
  shows "\<exists>rest. extract_text_from_file w file_path file_content file_type =
           (False, [], py ''No text found'' @ rest)"
proof -
  have sup: "py ''pdf'' \<in> set SUPPORTED_FILE_TYPES" "py ''txt'' \<in> set SUPPORTED_FILE_TYPES"
    "py ''docx'' \<in> set SUPPORTED_FILE_TYPES"
    by (simp_all add: SUPPORTED_FILE_TYPES_def)
  have ne: "py ''txt'' \<noteq> py ''pdf''" "py ''docx'' \<noteq> py ''pdf''" "py ''docx'' \<noteq> py ''txt''"
    by (simp_all add: py_def)
  from raw consider
      (is_pdf) "ft = py ''pdf''" "pdf_raw_text w file_path file_content = Inr raw"
    | (is_txt) "ft = py ''txt''" "txt_raw_text w file_path file_content = TxtText raw"
    | (is_docx) "ft = py ''docx''" "docx_raw_text w file_path file_content = Inr raw"
    by blast
  then show ?thesis
  proof cases
    case is_pdf
    have "extract_text_from_file w file_path file_content file_type =
            (False, [], py ''No text found'' @ py '' in PDF file'')"
      using ft size sup is_pdf blank
      by (simp add: extract_text_from_file_def extract_pdf_text_def) (simp add: py_def)
    then show ?thesis by blast
  next
    case is_txt
    have "extract_text_from_file w file_path file_content file_type =
            (False, [], py ''No text found'' @ py '' in file'')"
      using ft size sup ne is_txt blank
      by (simp add: extract_text_from_file_def extract_txt_text_def) (simp add: py_def)
    then show ?thesis by blast
  next
    case is_docx
    have "extract_text_from_file w file_path file_content file_type =
            (False, [], py ''No text found'' @ py '' in DOCX file'')"
      using ft size sup ne is_docx blank
      by (simp add: extract_text_from_file_def extract_docx_text_def) (simp add: py_def)
    then show ?thesis by blast
  qed
qed

theorem no_text_found_witness:
  "\<exists>rest. extract_text_from_file sample_world None (Some [32, 9]) (Some (py ''PDF'')) =
           (False, [], py ''No text found'' @ rest)"
proof (rule no_text_found [where ft = "py ''pdf''" and raw = "[32, 9, 10]"])
  show "determine_file_type sample_world None (Some [32, 9]) (Some (py ''PDF'')) = Some (py ''pdf'')"
    by (simp add: sample_world_def ascii_lower_def py_def)
  show "\<not> too_large (Some [32, 9])"
    by (simp add: MAX_FILE_SIZE_def)
  show "(py ''pdf'' = py ''pdf'' \<and> pdf_raw_text sample_world None (Some [32, 9]) = Inr [32, 9, 10])
       \<or> (py ''pdf'' = py ''txt'' \<and> txt_raw_text sample_world None (Some [32, 9]) = TxtText [32, 9, 10])
       \<or> (py ''pdf'' = py ''docx'' \<and> docx_raw_text sample_world None (Some [32, 9]) = Inr [32, 9, 10])"
    by (simp add: sample_world_def)
  show "strip (clean_text [32, 9, 10]) = []"
    by code_simp
qed

text \<open>
  C7, as amended. For non-empty content, no path, and a non-empty type tag whose lowercase
  form is outside the supported set, the result is the failure whose message names the
  lowercased tag and lists the supported types. (With empty content the answer is the
  missing-input message instead, which names no tag: the counterexample below.)
\<close>

theorem unsupported_type_rejected:
  assumes "file_content \<noteq> []" and "file_type \<noteq> []"
    and "lower w file_type \<notin> set SUPPORTED_FILE_TYPES"
  shows "extract_text_from_file w None (Some file_content) (Some file_type) =
           (False, [], py ''Unsupported file type: '' @ lower w file_type
                         @ py ''. Supported types: ['pdf', 'txt', 'docx']'')"
proof -
  obtain b bs t ts where "file_content = b # bs" "file_type = t # ts"
    using assms(1,2) by (cases file_content; cases file_type) auto
  then show ?thesis
    using assms(3) by (simp add: extract_text_from_file_def str_list_supported) (simp add: py_def)
qed

theorem unsupported_type_rejected_witness:
  "extract_text_from_file sample_world None (Some [37, 80]) (Some (py ''EXE'')) =
     (False, [], py ''Unsupported file type: exe. Supported types: ['pdf', 'txt', 'docx']'')"
proof -
  have "lower sample_world (py ''EXE'') = py ''exe''"
    by (simp add: sample_world_def ascii_lower_def py_def)
  moreover have "py ''exe'' \<notin> set SUPPORTED_FILE_TYPES"
    by (simp add: SUPPORTED_FILE_TYPES_def py_def)
  moreover have "[37, 80] \<noteq> ([] :: bytes)" "py ''EXE'' \<noteq> []"
    by (simp_all add: py_def)
  ultimately show ?thesis
    using unsupported_type_rejected [of "[37, 80]" "py ''EXE''" sample_world]
    by (simp add: py_def)
qed

theorem unsupported_type_empty_content_counterexample:
  "extract_text_from_file sample_world None (Some []) (Some (py ''exe'')) =
     (False, [], py ''No file provided or file type not specified'')
   \<and> \<not> sublist (py ''exe'') (py ''No file provided or file type not specified'')"
proof (intro conjI)
  show "extract_text_from_file sample_world None (Some []) (Some (py ''exe'')) =
          (False, [], py ''No file provided or file type not specified'')"
    by (simp add: extract_text_from_file_def)
  show "\<not> sublist (py ''exe'') (py ''No file provided or file type not specified'')"
    by code_simp
qed

text \<open>
  C10. Empty content and no path: whatever the type tag and the libraries, the result
  is the failure "No file provided or file type not specified"; the tag, the size limit
  and the parsers are not consulted.
\<close>

theorem empty_upload_is_missing_input:
  "extract_text_from_file w None (Some []) file_type =
     (False, [], py ''No file provided or file type not specified'')"
  by (simp add: extract_text_from_file_def)

section \<open>The completion client\<close>

lemma LLMClient_init_disabled:
  "\<not> truthy given \<Longrightarrow> \<not> truthy key \<Longrightarrow> \<not> client (LLMClient_init given key)"
proof -
  assume g: "\<not> truthy given" and k: "\<not> truthy key"
  from g have g': "given = None \<or> given = Some []" by (cases given) auto
  from k have k': "key = None \<or> key = Some []" by (cases key) auto
  from g' k' show ?thesis by auto
qed

lemma marked_call_failed: "marked (call_failed w e)"
  by (simp add: call_failed_def cross_mark_def)

text \<open>
  C4. A client constructed without a credential (none passed and none configured) is
  disabled: \<open>generate_response\<close>, \<open>summarize_text\<close>, \<open>answer_question\<close> and
  \<open>test_connection\<close> each return one fixed failure value, whatever their arguments,
  and hand no request to the transport.
\<close>

theorem disabled_client_fails_without_io:
  assumes "\<not> truthy given" and "\<not> truthy TOGETHER_API_KEY"
  shows "generate_response w (LLMClient_init given TOGETHER_API_KEY) prompt m t n =
           (JStr (cross_mark @ py '' API client not initialized, please check API key configuration''), [])
       \<and> summarize_text w (LLMClient_init given TOGETHER_API_KEY) text max_length =
           (JStr (cross_mark @ py '' Cannot generate summary: API client not initialized''), [])
       \<and> answer_question w (LLMClient_init given TOGETHER_API_KEY) ctxt question =
           (JStr (cross_mark @ py '' Cannot answer question: API client not initialized''), [])
       \<and> test_connection w (LLMClient_init given TOGETHER_API_KEY) =
           ((False, JStr (py ''API client not initialized'')), [])"
proof -
  have d: "\<not> client (LLMClient_init given TOGETHER_API_KEY)"
    using assms by (rule LLMClient_init_disabled)
  show ?thesis
    using d
    by (simp add: generate_response_def summarize_text_def answer_question_def
          test_connection_def)
qed

theorem disabled_client_fails_without_io_witness:
  "generate_response sample_world (LLMClient_init None (Some [])) (py ''hello'') None None None =
           (JStr (cross_mark @ py '' API client not initialized, please check API key configuration''), [])
       \<and> summarize_text sample_world (LLMClient_init None (Some [])) (py ''hello'') 200 =
           (JStr (cross_mark @ py '' Cannot generate summary: API client not initialized''), [])
       \<and> answer_question sample_world (LLMClient_init None (Some [])) (py ''hello'') (py ''why'') =
           (JStr (cross_mark @ py '' Cannot answer question: API client not initialized''), [])
       \<and> test_connection sample_world (LLMClient_init None (Some [])) =
           ((False, JStr (py ''API client not initialized'')), [])"
  using disabled_client_fails_without_io [of None "Some []" sample_world "py ''hello''" None None None
      "py ''hello''" 200 "py ''hello''" "py ''why''"]
  by simp

lemma build_request_enabled:
  "build_request (LLMClient_init (Some (c # cs)) key) prompt None t n =
     Inr \<lparr>url = py ''https://api.together.xyz/v1/chat/completions'',
          request_headers = [(py ''Authorization'', py ''Bearer '' @ (c # cs)),
                             (py ''Content-Type'', py ''application/json'')],
          json_body = \<lparr>model = DEFAULT_MODEL, messages = [(py ''user'', prompt)],
                       temperature = (case t of None \<Rightarrow> TEMPERATURE
                                      | Some x \<Rightarrow> if x = 0 then TEMPERATURE else x),
                       max_tokens = (case n of None \<Rightarrow> MAX_TOKENS
                                      | Some x \<Rightarrow> if x = 0 then MAX_TOKENS else x)\<rparr>,
          timeout = 30\<rparr>"
  by (simp add: build_request_def)

text \<open>Arguments that are not falsy do reach the request.\<close>

lemma build_request_overrides:
  "m \<noteq> [] \<Longrightarrow> t \<noteq> 0 \<Longrightarrow> n \<noteq> 0 \<Longrightarrow>
   build_request (LLMClient_init (Some (c # cs)) key) prompt (Some m) (Some t) (Some n) =
     Inr \<lparr>url = py ''https://api.together.xyz/v1/chat/completions'',
          request_headers = [(py ''Authorization'', py ''Bearer '' @ (c # cs)),
                             (py ''Content-Type'', py ''application/json'')],
          json_body = \<lparr>model = m, messages = [(py ''user'', prompt)],
                       temperature = t, max_tokens = n\<rparr>,
          timeout = 30\<rparr>"
  by (simp add: build_request_def)

lemma generate_response_sent:
  "client self \<Longrightarrow> build_request self prompt m t n = Inr req \<Longrightarrow>
   snd (generate_response w self prompt m t n) = [req]"
  by (simp add: generate_response_def split: sum.splits)

text \<open>
  C5. The claim is that a caller-supplied temperature in [0, 1] reaches the request.
  The code replaces every falsy argument by its default, so a caller-supplied
  temperature of 0 is sent as the default 0.1: the request below carries 1/10.
\<close>

theorem zero_temperature_replaced_by_default:
  "map (\<lambda>req. temperature (json_body req))
     (snd (generate_response w (LLMClient_init (Some (py ''key'')) None) prompt None (Some 0) None))
   = [1 / 10]"
proof -
  have k: "py ''key'' = 107 # py ''ey''" by (simp add: py_def)
  have c: "client (LLMClient_init (Some (107 # py ''ey'')) None)" by simp
  show ?thesis
    unfolding k generate_response_sent [OF c build_request_enabled]
    by (simp add: TEMPERATURE_def)
qed

text \<open>
  C6. Whatever \<open>generate_response\<close>, \<open>summarize_text\<close> and \<open>answer_question\<close>
  return is either a string that begins with the cross mark, or the content of the first
  choice of a response with status 200 to the request that an enabled client built. So
  every failure path (client disabled, exception before, during or after the call,
  status other than 200) returns a marked string.
\<close>

theorem failure_strings_are_marked:
  "(marked (fst (generate_response w self prompt m t n))
      \<or> (\<exists>req resp. client self \<and> build_request self prompt m t n = Inr req
            \<and> post w req = Inr resp \<and> status_code resp = 200
            \<and> first_choice_content resp = Inr (fst (generate_response w self prompt m t n))))
   \<and> (marked (fst (summarize_text w self text max_length))
      \<or> (\<exists>req resp. client self
            \<and> build_request self (summary_prompt text max_length) None None
                  (Some (max_length + 50)) = Inr req
            \<and> post w req = Inr resp \<and> status_code resp = 200
            \<and> first_choice_content resp = Inr (fst (summarize_text w self text max_length))))
   \<and> (marked (fst (answer_question w self ctxt question))
      \<or> (\<exists>req resp. client self
            \<and> build_request self (question_prompt ctxt question) None None None = Inr req
            \<and> post w req = Inr resp \<and> status_code resp = 200
            \<and> first_choice_content resp = Inr (fst (answer_question w self ctxt question))))"
proof -
  have gen: "\<And>p m t n. marked (fst (generate_response w self p m t n))
      \<or> (\<exists>req resp. client self \<and> build_request self p m t n = Inr req
            \<and> post w req = Inr resp \<and> status_code resp = 200
            \<and> first_choice_content resp = Inr (fst (generate_response w self p m t n)))"
    by (auto simp: generate_response_def marked_call_failed cross_mark_def
             split: sum.splits)
  have summ: "marked (fst (summarize_text w self text max_length))
      \<or> (\<exists>req resp. client self
            \<and> build_request self (summary_prompt text max_length) None None
                  (Some (max_length + 50)) = Inr req
            \<and> post w req = Inr resp \<and> status_code resp = 200
            \<and> first_choice_content resp = Inr (fst (summarize_text w self text max_length)))"
  proof (cases "client self")
    case False
    then show ?thesis by (simp add: summarize_text_def cross_mark_def)
  next
    case True
    then show ?thesis
      by (simp add: summarize_text_def) (use gen in blast)
  qed
  have ans: "marked (fst (answer_question w self ctxt question))
      \<or> (\<exists>req resp. client self
            \<and> build_request self (question_prompt ctxt question) None None None = Inr req
            \<and> post w req = Inr resp \<and> status_code resp = 200
            \<and> first_choice_content resp = Inr (fst (answer_question w self ctxt question)))"
  proof (cases "client self")
    case False
    then show ?thesis by (simp add: answer_question_def cross_mark_def)
  next
    case True
    then show ?thesis
      by (simp add: answer_question_def) (use gen in blast)
  qed
  from gen summ ans show ?thesis by blast
qed

section \<open>Statistics\<close>

lemma length_split_from_newline: "length (split_from [10] cur t) = Suc (count_list t 10)"
  by (induction t arbitrary: cur) auto

lemma length_split_ws_from:
  "length (split_ws_from cur t) =
     (if cur = [] then token_starts True t else Suc (token_starts False t))"
  by (induction t arbitrary: cur) auto

lemma token_starts_index:
  "token_starts prev t =
     length (filter (\<lambda>i. \<not> isspace (t ! i) \<and> (if i = 0 then prev else isspace (t ! (i - 1))))
               [0..<length t])"
proof (induction t arbitrary: prev)
  case Nil
  then show ?case by simp
next
  case (Cons c cs)
  let ?P = "\<lambda>i. \<not> isspace ((c # cs) ! i) \<and>
                 (if i = 0 then prev else isspace ((c # cs) ! (i - 1)))"
  let ?Q = "\<lambda>i. \<not> isspace (cs ! i) \<and> (if i = 0 then isspace c else isspace (cs ! (i - 1)))"
  have up: "[0..<length (c # cs)] = 0 # map Suc [0..<length cs]"
    by (simp add: upt_conv_Cons map_Suc_upt del: upt_Suc)
  have "filter ?P (map Suc [0..<length cs]) = map Suc (filter (?P \<circ> Suc) [0..<length cs])"
    by (simp add: filter_map)
  moreover have "filter (?P \<circ> Suc) [0..<length cs] = filter ?Q [0..<length cs]"
    by (rule filter_cong) (auto simp: nth_Cons')
  ultimately have "length (filter ?P (map Suc [0..<length cs])) = token_starts (isspace c) cs"
    using Cons.IH [of "isspace c"] by simp
  then show ?case unfolding up by simp
qed

lemma word_count_spec: "length (split_ws t) = spec_word_count t"
proof -
  have "length (split_ws t) = token_starts True t"
    by (simp add: split_ws_def length_split_ws_from)
  also have "\<dots> = spec_word_count t"
    unfolding token_starts_index spec_word_count_def
    by (rule arg_cong [where f = length], rule filter_cong) auto
  finally show ?thesis .
qed

text \<open>
  C8. \<open>get_text_stats\<close> meets its reference definition: the character count is the
  length of the text, the word count the number of whitespace-delimited tokens, the line
  count the number of newline-delimited segments (at least 1 for a non-empty text), and
  every field is 0 for the empty text. The two-line text "hello world", newline, "foo"
  has 15 characters, 3 words and 2 lines.
\<close>

theorem get_text_stats_reference:
  "character_count (get_text_stats t) = length t
   \<and> word_count (get_text_stats t) = spec_word_count t
   \<and> line_count (get_text_stats t) = spec_line_count t
   \<and> (t \<noteq> [] \<longrightarrow> 1 \<le> line_count (get_text_stats t))
   \<and> get_text_stats [] =
       \<lparr>character_count = 0, word_count = 0, line_count = 0, paragraph_count = 0\<rparr>
   \<and> character_count (get_text_stats (py ''hello world'' @ [10] @ py ''foo'')) = 15
   \<and> word_count (get_text_stats (py ''hello world'' @ [10] @ py ''foo'')) = 3
   \<and> line_count (get_text_stats (py ''hello world'' @ [10] @ py ''foo'')) = 2"
proof (intro conjI)
  show "character_count (get_text_stats t) = length t"
    by (simp add: get_text_stats_def)
  show "word_count (get_text_stats t) = spec_word_count t"
    by (simp add: get_text_stats_def word_count_spec) (simp add: spec_word_count_def)
  show "line_count (get_text_stats t) = spec_line_count t"
    by (simp add: get_text_stats_def spec_line_count_def split_def length_split_from_newline)
  show "t \<noteq> [] \<longrightarrow> 1 \<le> line_count (get_text_stats t)"
    by (simp add: get_text_stats_def split_def length_split_from_newline)
  show "get_text_stats [] =
       \<lparr>character_count = 0, word_count = 0, line_count = 0, paragraph_count = 0\<rparr>"
    by (simp add: get_text_stats_def)
  show "character_count (get_text_stats (py ''hello world'' @ [10] @ py ''foo'')) = 15"
    by (simp add: get_text_stats_def py_def)
  show "word_count (get_text_stats (py ''hello world'' @ [10] @ py ''foo'')) = 3"
    by (simp add: get_text_stats_def split_ws_def py_def isspace_def)
  show "line_count (get_text_stats (py ''hello world'' @ [10] @ py ''foo'')) = 2"
    by (simp add: get_text_stats_def split_def py_def)
qed

theorem get_text_stats_reference_witness:
  "py ''a b'' \<noteq> [] \<and> line_count (get_text_stats (py ''a b'')) = 1
   \<and> word_count (get_text_stats (py ''a b'')) = 2"
proof -
  have ne: "py ''a b'' \<noteq> []" by (simp add: py_def)
  have "1 \<le> line_count (get_text_stats (py ''a b''))"
    using get_text_stats_reference [of "py ''a b''"] ne by blast
  moreover have "line_count (get_text_stats (py ''a b'')) = 1"
    by (simp add: get_text_stats_def split_def py_def)
  moreover have "word_count (get_text_stats (py ''a b'')) = 2"
    by (simp add: get_text_stats_def split_ws_def py_def isspace_def)
  ultimately show ?thesis using ne by simp
qed

lemma split_from_no_blank: "no_blank t \<Longrightarrow> split_from [10, 10] cur t = [cur @ t]"
proof (induction t arbitrary: cur rule: no_blank.induct)
  case 1
  then show ?case by simp
next
  case (2 c)
  then show ?case by simp
next
  case (3 a b cs)
  have np: "\<not> prefix [10, 10] (a # b # cs)" using "3.prems" by auto
  have "split_from [10, 10] cur (a # b # cs) = split_from [10, 10] (cur @ [a]) (b # cs)"
    by (subst split_from.simps(2), subst if_not_P [OF np], rule refl)
  also have "\<dots> = [(cur @ [a]) @ b # cs]"
    using "3.IH" [of "cur @ [a]"] "3.prems" by simp
  finally show ?case by simp
qed

lemma no_blank_line_newline:
  "x \<noteq> [] \<Longrightarrow> 10 \<notin> set x \<Longrightarrow> no_blank r \<Longrightarrow> r = [] \<or> hd r \<noteq> 10 \<Longrightarrow>
   no_blank (x @ 10 # r)"
proof (induction x rule: induct_list012)
  case 1
  then show ?case by simp
next
  case (2 a)
  then show ?case by (cases r) auto
next
  case (3 a b xs)
  then show ?case by simp
qed

lemma hd_join: "x \<noteq> [] \<Longrightarrow> hd (join [10] (x # xs)) = hd x"
  by (cases xs) auto

lemma no_blank_join:
  "\<forall>l\<in>set ls. l \<noteq> [] \<and> 10 \<notin> set l \<Longrightarrow> no_blank (join [10] ls)"
proof (induction ls rule: induct_list012)
  case 1
  then show ?case by simp
next
  case (2 x)
  then show ?case by (induction x rule: induct_list012) auto
next
  case (3 x y zs)
  have "hd (join [10] (y # zs)) = hd y" using 3(3) by (simp add: hd_join)
  moreover have "hd y \<noteq> 10" using 3(3) by (cases y) auto
  ultimately have "join [10] (y # zs) = [] \<or> hd (join [10] (y # zs)) \<noteq> 10" by simp
  moreover have "no_blank (join [10] (y # zs))" using 3(2,3) by simp
  ultimately have "no_blank (x @ 10 # join [10] (y # zs))"
    using 3(3) by (intro no_blank_line_newline) auto
  then show ?case by simp
qed

lemma strip_Nil_iff: "strip s = [] \<longleftrightarrow> (\<forall>c\<in>set s. isspace c)"
proof
  assume "strip s = []"
  then have a: "\<forall>x\<in>set (dropWhile isspace s). isspace x" by (simp add: strip_def)
  show "\<forall>c\<in>set s. isspace c"
  proof (rule ccontr)
    assume "\<not> (\<forall>c\<in>set s. isspace c)"
    then have ne: "dropWhile isspace s \<noteq> []" by simp
    then have "\<not> isspace (hd (dropWhile isspace s))" by (rule hd_dropWhile)
    moreover have "hd (dropWhile isspace s) \<in> set (dropWhile isspace s)" using ne by simp
    ultimately show False using a by blast
  qed
next
  assume "\<forall>c\<in>set s. isspace c"
  then show "strip s = []" by (auto simp: strip_def dest: set_dropWhileD)
qed

text \<open>
  C9. For every string whose normalised form is non-empty, the statistics of the
  normalised form report exactly one paragraph, which is at most the line count:
  normalisation removes every blank line, so no blank-line separator is left.
\<close>

theorem cleaned_text_has_one_paragraph:
  assumes "clean_text s \<noteq> []"
  shows "paragraph_count (get_text_stats (clean_text s)) = 1
       \<and> paragraph_count (get_text_stats (clean_text s)) \<le> line_count (get_text_stats (clean_text s))"
proof -
  obtain ls where ls: "clean_lines ls" "clean_text s = join [10] ls"
    using clean_text_lines by blast
  have ne: "ls \<noteq> []" using assms ls(2) by auto
  then obtain x xs where x: "ls = x # xs" by (cases ls) auto
  have tx: "trimmed x" using ls(1) x by (simp add: clean_lines_def)
  have "\<forall>l\<in>set ls. l \<noteq> [] \<and> 10 \<notin> set l"
    using ls(1) by (simp add: clean_lines_def trimmed_def)
  then have "no_blank (clean_text s)" unfolding ls(2) by (rule no_blank_join)
  then have sp: "split (clean_text s) [10, 10] = [clean_text s]"
    by (simp add: split_def split_from_no_blank)
  have "hd (clean_text s) = hd x" using tx unfolding ls(2) x by (simp add: hd_join trimmed_def)
  then have "\<not> isspace (hd (clean_text s))" using tx by (simp add: trimmed_def)
  moreover have "hd (clean_text s) \<in> set (clean_text s)" using assms by simp
  ultimately have st: "strip (clean_text s) \<noteq> []" unfolding strip_Nil_iff by blast
  have p: "paragraph_count (get_text_stats (clean_text s)) = 1"
    using assms sp st by (simp add: get_text_stats_def)
  have "line_count (get_text_stats (clean_text s)) = Suc (count_list (clean_text s) 10)"
    using assms by (simp add: get_text_stats_def split_def length_split_from_newline)
  with p show ?thesis by simp
qed

theorem cleaned_text_has_one_paragraph_witness:
  "clean_text (py ''one'' @ [10, 10] @ py ''two'') \<noteq> []
   \<and> paragraph_count (get_text_stats (py ''one'' @ [10, 10] @ py ''two'')) = 2
   \<and> paragraph_count (get_text_stats (clean_text (py ''one'' @ [10, 10] @ py ''two''))) = 1"
proof -
  have ne: "clean_text (py ''one'' @ [10, 10] @ py ''two'') \<noteq> []"
    by (simp add: clean_text_def split_def py_def strip_def isspace_def)
  have "paragraph_count (get_text_stats (py ''one'' @ [10, 10] @ py ''two'')) = 2"
    by (simp add: get_text_stats_def split_def py_def strip_def isspace_def)
  then show ?thesis
    using ne cleaned_text_has_one_paragraph [OF ne] by simp
qed

end
